theory Spec2Isabelle
  imports Main
begin

section \<open>The recipe \<open>UpClientZenoh\<close> of conanfile.py\<close>

text \<open>
  The recipe is a class with five methods that the package manager calls: \<open>requirements\<close>,
  \<open>generate\<close>, \<open>build\<close>, \<open>package\<close> and \<open>package_info\<close>. Each of them can read two
  things: the options of the recipe object (\<open>self.options\<close>) and the environment of the
  process (\<open>os.environ\<close>). Both are explicit parameters of every method below, also
  where the body of the method never looks at one of them, so that what a method does not
  depend on is a statement about its definition and not about its type.

  What a method does to its collaborators (the dependency manager, the CMake helper, the
  file copier, the logger, the \<open>cpp_info\<close> object) is made explicit: the calls it issues,
  in the order of the source, or the object it has updated.
\<close>

subsection \<open>Options\<close>

text \<open>The five options of the class attribute \<open>options\<close>; each ranges over \<open>[True, False]\<close>.
  The class assigns \<open>options\<close> twice; the second assignment, with all five options, is the
  one in force.\<close>

record option_set =
  shared :: bool
  fPIC :: bool
  build_testing :: bool
  build_unbundled :: bool
  build_cross_compiling :: bool

definition default_options :: option_set where
  "default_options =
     \<lparr> shared = False,
       fPIC = False,
       build_testing = False,
       build_unbundled = True,
       build_cross_compiling = False \<rparr>"

subsection \<open>The process environment\<close>

text \<open>\<open>os.environ\<close> is a dictionary from names to strings; \<open>os.environ.get\<close> answers \<open>None\<close>
  for a name that is not set.\<close>

type_synonym environ = "string \<rightharpoonup> string"

definition environ_get :: "environ \<Rightarrow> string \<Rightarrow> string option" where
  "environ_get env k = env k"

text \<open>The test \<open>os.environ.get("BUILD_DIR_FULL_PATH") is not None\<close>, which \<open>build\<close>,
  \<open>package\<close> and \<open>package_info\<close> each evaluate first.\<close>

definition override_present :: "environ \<Rightarrow> bool" where
  "override_present env = (environ_get env ''BUILD_DIR_FULL_PATH'' \<noteq> None)"

subsection \<open>requirements\<close>

text \<open>The method calls \<open>self.requires\<close> once per dependency; the result is the list of the
  references it passes, in call order.\<close>

definition requirements :: "environ \<Rightarrow> option_set \<Rightarrow> string list" where
  "requirements env opts =
     [''protobuf/3.21.12'' @ (if build_cross_compiling opts then ''@cross/cross'' else '''')]
     @ [''spdlog/1.13.0'']
     @ [''up-cpp/x.y.z'']
     @ (if build_testing opts then [''gtest/1.14.0'', ''boost/1.84.0''] else [])
     @ (if build_unbundled opts then [''zenohc/cci.20240213''] else [])"

text \<open>The component a reference \<open>name/version[@user/channel]\<close> names is what stands before
  its first slash.\<close>

definition component :: "string \<Rightarrow> string" where
  "component ref = takeWhile (\<lambda>c. c \<noteq> CHR ''/'') ref"

text \<open>The method as it is written: it returns nothing, and each \<open>self.requires(ref)\<close>
  changes the recipe object. \<open>declared\<close> is the part of the object those calls write, the
  references passed so far in call order; whatever else the object holds is the rest of
  the record. \<open>requirements\<close> above is the list one run of the method adds to it.\<close>

record recipe =
  declared :: "string list"



subsection \<open>generate\<close>

text \<open>\<open>tc\<close> is the toolchain object that \<open>CMakeToolchain(self)\<close> returns; the method stores
  one entry in its \<open>variables\<close> and then calls \<open>tc.generate()\<close>. The result is the toolchain
  that is generated.\<close>

record cmake_toolchain =
  variables :: "string \<rightharpoonup> bool"

definition generate :: "environ \<Rightarrow> option_set \<Rightarrow> cmake_toolchain \<Rightarrow> cmake_toolchain" where
  "generate env opts tc =
     tc\<lparr>variables := (variables tc)(''BUILD_TESTING'' \<mapsto> build_testing opts)\<rparr>"

subsection \<open>build and package\<close>

text \<open>The calls the two methods issue: on the CMake helper, on \<open>self.output\<close> and on
  \<open>self.copy\<close>, whose keyword arguments are the fields of \<open>Copy\<close>.\<close>

datatype action =
    CMake_configure
  | CMake_build
  | CMake_install
  | Output_info string
  | Copy (pattern: string) (dst: string) (src: string) (symlinks: bool) (ignore_case: bool)

definition build :: "environ \<Rightarrow> option_set \<Rightarrow> action list" where
  "build env opts =
     (if override_present env then []
      else [CMake_configure, CMake_build])"

definition package :: "environ \<Rightarrow> option_set \<Rightarrow> action list" where
  "package env opts =
     (if override_present env then
        (let build_folder_path = the (environ_get env ''BUILD_DIR_FULL_PATH'') in
         [Output_info (''BUILD_DIR_FULL_PATH: '' @ the (environ_get env ''BUILD_DIR_FULL_PATH'')),
          Output_info (''BUILD_DIR_FULL_PATH: '' @ build_folder_path),
          Copy ''*'' ''.'' (build_folder_path @ ''/install'') True False])
      else [CMake_install])"

subsection \<open>package_info\<close>

text \<open>The fields of \<open>self.cpp_info\<close> the method writes. \<open>set_property\<close> stores into the
  dictionary \<open>properties\<close>; \<open>names\<close> is a dictionary too. \<open>collect_libs(self)\<close> scans the
  package folder; the list it returns is the parameter \<open>collected\<close>.\<close>

record cpp_info =
  properties :: "string \<rightharpoonup> string"
  libs :: "string list"
  requires :: "string list"
  names :: "string \<rightharpoonup> string"

definition set_property :: "string \<Rightarrow> string \<Rightarrow> cpp_info \<Rightarrow> cpp_info" where
  "set_property k v ci = ci\<lparr>properties := (properties ci)(k \<mapsto> v)\<rparr>"

definition package_info :: "environ \<Rightarrow> option_set \<Rightarrow> string list \<Rightarrow> cpp_info \<Rightarrow> cpp_info" where
  "package_info env opts collected ci =
     (if override_present env then
        (let ci1 = set_property ''cmake_file_name'' ''up-client-zenoh-cpp'' ci;
             ci2 = set_property ''cmake_target_name''
                     ''up-client-zenoh-cpp::up-client-zenoh-cpp'' ci1;
             ci3 = set_property ''pkg_config_name'' ''up-client-zenoh-cpp'' ci2;
             ci4 = ci3\<lparr>libs := collected\<rparr>;
             ci5 = ci4\<lparr>requires := [''up-cpp::up-cpp'', ''zenohc::zenohc'',
                                     ''spdlog::spdlog'', ''protobuf::protobuf'']\<rparr>;
             ci6 = ci5\<lparr>names := (names ci5)(''cmake_find_package'' \<mapsto> ''up-client-zenoh-cpp'')\<rparr>
         in ci6\<lparr>names := (names ci6)(''cmake_find_package_multi'' \<mapsto> ''up-client-zenoh-cpp'')\<rparr>)
      else ci\<lparr>libs := [''up-client-zenoh-cpp'']\<rparr>)"

text \<open>A \<open>cpp_info\<close> in which nothing has been published yet.\<close>

definition empty_cpp_info :: cpp_info where
  "empty_cpp_info = \<lparr> properties = Map.empty, libs = [], requires = [], names = Map.empty \<rparr>"

section \<open>Facts about the reference list\<close>

lemma components_of_requirements:
  "map component (requirements env opts) =
     [''protobuf'', ''spdlog'', ''up-cpp'']
     @ (if build_testing opts then [''gtest'', ''boost''] else [])
     @ (if build_unbundled opts then [''zenohc''] else [])"
  by (simp add: requirements_def component_def)

lemma set_requirements:
  "set (requirements env opts) =
     {''protobuf/3.21.12'' @ (if build_cross_compiling opts then ''@cross/cross'' else []),
      ''spdlog/1.13.0'', ''up-cpp/x.y.z''}
     \<union> (if build_testing opts then {''gtest/1.14.0'', ''boost/1.84.0''} else {})
     \<union> (if build_unbundled opts then {''zenohc/cci.20240213''} else {})"
  by (auto simp add: requirements_def)

section \<open>Requirement resolution\<close>

text \<open>
  C3. With \<open>build_testing\<close> and \<open>build_unbundled\<close> both false, \<open>requirements\<close> declares exactly
  three dependencies: protobuf (the serialization library), spdlog (the logging library)
  and up-cpp (the transport API), in that order.
\<close>

theorem requirements_minimal:
  assumes "\<not> build_testing opts" and "\<not> build_unbundled opts"
  shows "length (requirements env opts) = 3
       \<and> map component (requirements env opts) = [''protobuf'', ''spdlog'', ''up-cpp'']
       \<and> requirements env opts =
           [''protobuf/3.21.12'' @ (if build_cross_compiling opts then ''@cross/cross'' else ''''),
            ''spdlog/1.13.0'', ''up-cpp/x.y.z'']"
  using assms by (simp add: requirements_def component_def)

theorem requirements_minimal_witness:
  "\<not> build_testing (default_options\<lparr>build_unbundled := False\<rparr>)
   \<and> \<not> build_unbundled (default_options\<lparr>build_unbundled := False\<rparr>)
   \<and> requirements Map.empty (default_options\<lparr>build_unbundled := False\<rparr>) =
       [''protobuf/3.21.12'', ''spdlog/1.13.0'', ''up-cpp/x.y.z'']"
  using requirements_minimal [of "default_options\<lparr>build_unbundled := False\<rparr>" Map.empty]
  by (simp add: default_options_def)

text \<open>
  C4. For the options \<open>build_testing = True\<close>, \<open>build_unbundled = True\<close>,
  \<open>build_cross_compiling = False\<close> (whatever \<open>shared\<close> and \<open>fPIC\<close> are, and in every
  environment, so also in one without the override), \<open>requirements\<close> declares protobuf,
  spdlog, up-cpp, gtest, boost and zenohc in that order, and \<open>generate\<close> stores
  \<open>BUILD_TESTING = True\<close> in the toolchain it generates.
\<close>

theorem end_to_end_testing_unbundled:
  "requirements env \<lparr>shared = s, fPIC = f, build_testing = True, build_unbundled = True,
       build_cross_compiling = False\<rparr> =
     [''protobuf/3.21.12'', ''spdlog/1.13.0'', ''up-cpp/x.y.z'',
      ''gtest/1.14.0'', ''boost/1.84.0'', ''zenohc/cci.20240213'']
   \<and> map component (requirements env \<lparr>shared = s, fPIC = f, build_testing = True,
         build_unbundled = True, build_cross_compiling = False\<rparr>) =
     [''protobuf'', ''spdlog'', ''up-cpp'', ''gtest'', ''boost'', ''zenohc'']
   \<and> variables (generate env \<lparr>shared = s, fPIC = f, build_testing = True,
         build_unbundled = True, build_cross_compiling = False\<rparr> tc) ''BUILD_TESTING'' = Some True"
  by (simp add: requirements_def component_def generate_def)

text \<open>
  C5. The list \<open>requirements\<close> declares contains the transport backend zenohc exactly when
  \<open>build_unbundled\<close> is true; \<open>build_unbundled\<close> is true in \<open>default_options\<close>, so the
  default options declare it.
\<close>

theorem transport_backend_iff_unbundled:
  "(''zenohc'' \<in> set (map component (requirements env opts)) \<longleftrightarrow> build_unbundled opts)
   \<and> (''zenohc/cci.20240213'' \<in> set (requirements env opts) \<longleftrightarrow> build_unbundled opts)
   \<and> build_unbundled default_options
   \<and> ''zenohc/cci.20240213'' \<in> set (requirements env default_options)"
  by (simp add: components_of_requirements set_requirements default_options_def)

text \<open>
  C6. Two option sets that differ only in \<open>build_cross_compiling\<close> are \<open>opts\<close> with the
  option set to \<open>True\<close> and \<open>opts\<close> with the option set to \<open>False\<close>. Their two lists have
  the same length, the same tail and the same components in the same positions; only the
  first reference, protobuf's, differs, and only by the suffix \<open>@cross/cross\<close>.
\<close>

theorem cross_compiling_changes_channel_only:
  "hd (requirements env (opts\<lparr>build_cross_compiling := False\<rparr>)) = ''protobuf/3.21.12''
   \<and> hd (requirements env (opts\<lparr>build_cross_compiling := True\<rparr>)) =
       ''protobuf/3.21.12'' @ ''@cross/cross''
   \<and> tl (requirements env (opts\<lparr>build_cross_compiling := True\<rparr>)) =
       tl (requirements env (opts\<lparr>build_cross_compiling := False\<rparr>))
   \<and> length (requirements env (opts\<lparr>build_cross_compiling := True\<rparr>)) =
       length (requirements env (opts\<lparr>build_cross_compiling := False\<rparr>))
   \<and> map component (requirements env (opts\<lparr>build_cross_compiling := True\<rparr>)) =
       map component (requirements env (opts\<lparr>build_cross_compiling := False\<rparr>))
   \<and> 3 \<le> length (requirements env (opts\<lparr>build_cross_compiling := False\<rparr>))"
  by (simp add: requirements_def component_def)



section \<open>The toolchain\<close>

text \<open>
  C10. \<open>generate\<close> does the same in every environment: it stores the value of the option
  \<open>build_testing\<close> under \<open>BUILD_TESTING\<close> and leaves every other variable of the toolchain
  as it was, so that a toolchain that starts with no variables is generated with exactly
  that one.
\<close>

theorem generate_ignores_environment:
  "generate env opts tc = generate env' opts tc
   \<and> variables (generate env opts tc) ''BUILD_TESTING'' = Some (build_testing opts)
   \<and> variables (generate env opts tc) =
       (\<lambda>k. if k = ''BUILD_TESTING'' then Some (build_testing opts) else variables tc k)
   \<and> dom (variables (generate env opts \<lparr>variables = Map.empty\<rparr>)) = {''BUILD_TESTING''}"
  by (auto simp add: generate_def)

section \<open>The override \<open>BUILD_DIR_FULL_PATH\<close>\<close>

text \<open>
  C2, as stated, fails. The claim wants the override absent, and the native build run, when
  the variable is set to the empty string. In that environment the test of the three
  methods succeeds: \<open>build\<close> calls nothing, \<open>package\<close> copies from \<open>/install\<close>, and
  \<open>package_info\<close> publishes the collected libraries.
\<close>

theorem empty_override_counterexample:
  "override_present [''BUILD_DIR_FULL_PATH'' \<mapsto> '''']
   \<and> build [''BUILD_DIR_FULL_PATH'' \<mapsto> ''''] default_options = []
   \<and> package [''BUILD_DIR_FULL_PATH'' \<mapsto> ''''] default_options =
       [Output_info ''BUILD_DIR_FULL_PATH: '', Output_info ''BUILD_DIR_FULL_PATH: '',
        Copy ''*'' ''.'' ''/install'' True False]
   \<and> libs (package_info [''BUILD_DIR_FULL_PATH'' \<mapsto> ''''] default_options [] empty_cpp_info) = []"
  by (simp add: override_present_def environ_get_def build_def package_def package_info_def
      set_property_def empty_cpp_info_def Let_def)

text \<open>
  C2, amended. The test that gates \<open>build\<close>, \<open>package\<close> and \<open>package_info\<close> succeeds exactly
  when the variable \<open>BUILD_DIR_FULL_PATH\<close> is set, to any string, the empty one included,
  and fails exactly when it is not set. \<open>build\<close> runs the toolchain, \<open>package\<close> runs the
  install step and \<open>package_info\<close> names the fixed library exactly when the variable is
  not set.
\<close>

theorem override_present_iff_set:
  "(override_present env \<longleftrightarrow> ''BUILD_DIR_FULL_PATH'' \<in> dom env)
   \<and> override_present (env(''BUILD_DIR_FULL_PATH'' \<mapsto> v))
   \<and> \<not> override_present (env(''BUILD_DIR_FULL_PATH'' := None))
   \<and> build env opts =
       (if ''BUILD_DIR_FULL_PATH'' \<in> dom env then [] else [CMake_configure, CMake_build])
   \<and> (package env opts = [CMake_install] \<longleftrightarrow> ''BUILD_DIR_FULL_PATH'' \<notin> dom env)
   \<and> libs (package_info env opts collected ci) =
       (if ''BUILD_DIR_FULL_PATH'' \<in> dom env then collected else [''up-client-zenoh-cpp''])"
  by (auto simp add: override_present_def environ_get_def build_def package_def package_info_def
      set_property_def Let_def)

text \<open>
  C7. When \<open>BUILD_DIR_FULL_PATH\<close> is set to \<open>p\<close>, \<open>build\<close> issues no call at all, so neither
  the configure nor the build step of CMake, and \<open>package\<close> logs the path twice and then
  issues one copy: of everything (\<open>*\<close>) under \<open>p/install\<close> into the package folder (\<open>.\<close>),
  with \<open>symlinks = True\<close> and \<open>ignore_case = False\<close>; it does not call the install step.
\<close>

theorem import_prebuilt_build_and_package:
  assumes "env ''BUILD_DIR_FULL_PATH'' = Some p"
  shows "build env opts = []
       \<and> package env opts =
           [Output_info (''BUILD_DIR_FULL_PATH: '' @ p),
            Output_info (''BUILD_DIR_FULL_PATH: '' @ p),
            Copy ''*'' ''.'' (p @ ''/install'') True False]
       \<and> CMake_install \<notin> set (package env opts)"
  using assms by (simp add: build_def package_def override_present_def environ_get_def)

theorem import_prebuilt_build_and_package_witness:
  "[''BUILD_DIR_FULL_PATH'' \<mapsto> ''/tmp/prebuilt''] ''BUILD_DIR_FULL_PATH'' = Some ''/tmp/prebuilt''
   \<and> build [''BUILD_DIR_FULL_PATH'' \<mapsto> ''/tmp/prebuilt''] default_options = []
   \<and> package [''BUILD_DIR_FULL_PATH'' \<mapsto> ''/tmp/prebuilt''] default_options =
       [Output_info ''BUILD_DIR_FULL_PATH: /tmp/prebuilt'',
        Output_info ''BUILD_DIR_FULL_PATH: /tmp/prebuilt'',
        Copy ''*'' ''.'' ''/tmp/prebuilt/install'' True False]"
  using import_prebuilt_build_and_package
    [of "[''BUILD_DIR_FULL_PATH'' \<mapsto> ''/tmp/prebuilt'']" "''/tmp/prebuilt''" default_options]
  by simp

section \<open>Published metadata\<close>

text \<open>
  C1, as stated, fails: the claim has the two branches the other way round. With the
  variable not set, \<open>package_info\<close> publishes no requirement and no
  \<open>cmake_file_name\<close>; with the variable set, it publishes four requirements and the
  aliases. The alias \<open>cmake_target_name\<close> is not the package name either, but the package
  name qualified by itself.
\<close>

theorem package_info_unset_is_minimal_counterexample:
  "requires (package_info Map.empty default_options [''up-client-zenoh-cpp''] empty_cpp_info) = []
   \<and> properties (package_info Map.empty default_options [''up-client-zenoh-cpp''] empty_cpp_info)
       ''cmake_file_name'' = None
   \<and> length (requires (package_info [''BUILD_DIR_FULL_PATH'' \<mapsto> ''/tmp/prebuilt'']
         default_options [''up-client-zenoh-cpp''] empty_cpp_info)) = 4
   \<and> properties (package_info [''BUILD_DIR_FULL_PATH'' \<mapsto> ''/tmp/prebuilt'']
         default_options [''up-client-zenoh-cpp''] empty_cpp_info) ''cmake_file_name''
       = Some ''up-client-zenoh-cpp''
   \<and> properties (package_info [''BUILD_DIR_FULL_PATH'' \<mapsto> ''/tmp/prebuilt'']
         default_options [''up-client-zenoh-cpp''] empty_cpp_info) ''cmake_target_name''
       \<noteq> Some ''up-client-zenoh-cpp''"
  by (simp add: package_info_def set_property_def override_present_def environ_get_def
      empty_cpp_info_def Let_def)

text \<open>
  C1, amended. When \<open>BUILD_DIR_FULL_PATH\<close> is set, \<open>package_info\<close> publishes the aliases
  (\<open>cmake_file_name\<close> and \<open>pkg_config_name\<close> set to the package name, \<open>cmake_target_name\<close>
  to the package name qualified by itself, and the two \<open>cmake_find_package\<close> names), the
  library list that the scan of the package folder returned, and a requirement list of
  exactly four targets. When the variable is not set, it changes nothing of \<open>cpp_info\<close> but
  the library list, which names the one library \<open>up-client-zenoh-cpp\<close>: no alias and no
  requirement is published.
\<close>

theorem package_info_by_override:
  "(env ''BUILD_DIR_FULL_PATH'' = Some p \<longrightarrow>
      properties (package_info env opts collected ci) ''cmake_file_name''
        = Some ''up-client-zenoh-cpp''
    \<and> properties (package_info env opts collected ci) ''cmake_target_name''
        = Some ''up-client-zenoh-cpp::up-client-zenoh-cpp''
    \<and> properties (package_info env opts collected ci) ''pkg_config_name''
        = Some ''up-client-zenoh-cpp''
    \<and> names (package_info env opts collected ci) ''cmake_find_package''
        = Some ''up-client-zenoh-cpp''
    \<and> names (package_info env opts collected ci) ''cmake_find_package_multi''
        = Some ''up-client-zenoh-cpp''
    \<and> libs (package_info env opts collected ci) = collected
    \<and> requires (package_info env opts collected ci) =
        [''up-cpp::up-cpp'', ''zenohc::zenohc'', ''spdlog::spdlog'', ''protobuf::protobuf'']
    \<and> length (requires (package_info env opts collected ci)) = 4)
   \<and> (env ''BUILD_DIR_FULL_PATH'' = None \<longrightarrow>
      package_info env opts collected ci = ci\<lparr>libs := [''up-client-zenoh-cpp'']\<rparr>)"
  by (simp add: package_info_def set_property_def override_present_def environ_get_def Let_def)

theorem package_info_by_override_witness:
  "[''BUILD_DIR_FULL_PATH'' \<mapsto> ''/tmp/prebuilt''] ''BUILD_DIR_FULL_PATH'' = Some ''/tmp/prebuilt''
   \<and> libs (package_info [''BUILD_DIR_FULL_PATH'' \<mapsto> ''/tmp/prebuilt''] default_options
        [''up-client-zenoh-cpp'', ''extra''] empty_cpp_info) = [''up-client-zenoh-cpp'', ''extra'']
   \<and> requires (package_info [''BUILD_DIR_FULL_PATH'' \<mapsto> ''/tmp/prebuilt''] default_options
        [''up-client-zenoh-cpp'', ''extra''] empty_cpp_info) =
       [''up-cpp::up-cpp'', ''zenohc::zenohc'', ''spdlog::spdlog'', ''protobuf::protobuf'']
   \<and> (Map.empty :: environ) ''BUILD_DIR_FULL_PATH'' = None
   \<and> package_info Map.empty default_options [''up-client-zenoh-cpp'', ''extra''] empty_cpp_info =
       \<lparr> properties = Map.empty, libs = [''up-client-zenoh-cpp''], requires = [],
         names = Map.empty \<rparr>"
  using package_info_by_override
      [of "[''BUILD_DIR_FULL_PATH'' \<mapsto> ''/tmp/prebuilt'']" "''/tmp/prebuilt''" default_options
          "[''up-client-zenoh-cpp'', ''extra'']" empty_cpp_info]
    package_info_by_override
      [of Map.empty "''x''" default_options "[''up-client-zenoh-cpp'', ''extra'']" empty_cpp_info]
  by (simp add: empty_cpp_info_def)

text \<open>
  C9. In the branch \<open>package_info\<close> takes when \<open>BUILD_DIR_FULL_PATH\<close> is set, the requirement
  list it publishes is up-cpp, zenohc, spdlog, protobuf, whatever the options are: also
  with \<open>build_unbundled\<close> false, where \<open>requirements\<close> never declared zenohc, and with
  \<open>build_testing\<close> true, where \<open>requirements\<close> declared two dependencies more.
\<close>

theorem prebuilt_requires_fixed:
  assumes "env ''BUILD_DIR_FULL_PATH'' = Some p"
  shows "requires (package_info env opts collected ci) =
           [''up-cpp::up-cpp'', ''zenohc::zenohc'', ''spdlog::spdlog'', ''protobuf::protobuf'']
       \<and> length (requires (package_info env opts collected ci)) = 4
       \<and> requires (package_info env (opts\<lparr>build_unbundled := False\<rparr>) collected ci) =
           [''up-cpp::up-cpp'', ''zenohc::zenohc'', ''spdlog::spdlog'', ''protobuf::protobuf'']
       \<and> ''zenohc'' \<notin> set (map component (requirements env (opts\<lparr>build_unbundled := False\<rparr>)))
       \<and> requires (package_info env (opts\<lparr>build_testing := True\<rparr>) collected ci) =
           [''up-cpp::up-cpp'', ''zenohc::zenohc'', ''spdlog::spdlog'', ''protobuf::protobuf'']
       \<and> 5 \<le> length (requirements env (opts\<lparr>build_testing := True\<rparr>))"
  using assms
  by (simp add: package_info_def set_property_def override_present_def environ_get_def
      components_of_requirements Let_def) (simp add: requirements_def)

theorem prebuilt_requires_fixed_witness:
  "[''BUILD_DIR_FULL_PATH'' \<mapsto> ''/tmp/prebuilt''] ''BUILD_DIR_FULL_PATH'' = Some ''/tmp/prebuilt''
   \<and> requires (package_info [''BUILD_DIR_FULL_PATH'' \<mapsto> ''/tmp/prebuilt'']
        (default_options\<lparr>build_unbundled := False\<rparr>) [''up-client-zenoh-cpp''] empty_cpp_info) =
       [''up-cpp::up-cpp'', ''zenohc::zenohc'', ''spdlog::spdlog'', ''protobuf::protobuf'']
   \<and> requirements [''BUILD_DIR_FULL_PATH'' \<mapsto> ''/tmp/prebuilt'']
        (default_options\<lparr>build_unbundled := False\<rparr>) =
       [''protobuf/3.21.12'', ''spdlog/1.13.0'', ''up-cpp/x.y.z'']"
  using prebuilt_requires_fixed
    [of "[''BUILD_DIR_FULL_PATH'' \<mapsto> ''/tmp/prebuilt'']" "''/tmp/prebuilt''"
        "default_options\<lparr>build_unbundled := False\<rparr>" "[''up-client-zenoh-cpp'']" empty_cpp_info]
  by (simp add: requirements_def default_options_def)

end
